theory Spec2Isabelle
  imports Complex_Main "HOL-Library.Sublist"
begin

section \<open>Python values used by the pipeline\<close>

text \<open>
  The source is \<^verbatim>\<open>agri_drone_system.py\<close>. A Python float is an IEEE 754 binary64 number:
  a finite value is given by the real number it stands for, and negative zero, the two
  infinities and NaN are constructors of their own. \<open>Fin 0\<close> is the positive zero.
\<close>

datatype pyfloat = Fin real | NegZero | PInf | NInf | NaN

text \<open>\<^verbatim>\<open>x < c\<close> for a float \<open>x\<close> and a finite value \<open>c\<close>: every comparison with NaN is
  false, and negative zero compares as zero.\<close>

definition float_lt :: "pyfloat \<Rightarrow> real \<Rightarrow> bool" where
  "float_lt x c = (case x of
       Fin r \<Rightarrow> r < c
     | NegZero \<Rightarrow> 0 < c
     | PInf \<Rightarrow> False
     | NInf \<Rightarrow> True
     | NaN \<Rightarrow> False)"

subsection \<open>Rounding to binary64\<close>

definition pow2 :: "int \<Rightarrow> real" where
  "pow2 e = (if 0 \<le> e then 2 ^ nat e else 1 / 2 ^ nat (- e))"

text \<open>The binary exponent of a positive real \<open>x\<close>: the \<open>e\<close> with \<open>2\<^sup>e \<le> x < 2\<^sup>e\<^sup>+\<^sup>1\<close>.\<close>

function ilog2 :: "real \<Rightarrow> int" where
  "ilog2 x = (if x \<le> 0 then 0
              else if 2 \<le> x then ilog2 (x / 2) + 1
              else if x < 1 then ilog2 (x * 2) - 1
              else 0)"
  by pat_completeness auto
termination
proof (relation "measure (\<lambda>x. nat \<lfloor>x\<rfloor> + 2 * nat \<lceil>1 / x\<rceil>)")
  show "wf (measure (\<lambda>x. nat \<lfloor>x\<rfloor> + 2 * nat \<lceil>1 / x\<rceil>))" by simp
next
  fix x :: real
  assume "\<not> x \<le> 0" and x: "2 \<le> x"
  have a: "\<lfloor>x / 2\<rfloor> < \<lfloor>x\<rfloor>" using x by linarith
  have b: "\<lceil>1 / (x / 2)\<rceil> = 1" using x by (simp add: ceiling_eq_iff)
  have c: "\<lceil>1 / x\<rceil> = 1" using x by (simp add: ceiling_eq_iff field_simps)
  have d: "nat \<lfloor>x / 2\<rfloor> < nat \<lfloor>x\<rfloor>" using a x by linarith
  show "(x / 2, x) \<in> measure (\<lambda>x. nat \<lfloor>x\<rfloor> + 2 * nat \<lceil>1 / x\<rceil>)"
    using d by (simp only: in_measure b c)
next
  fix x :: real
  assume pos: "\<not> x \<le> 0" and "\<not> 2 \<le> x" and x: "x < 1"
  have fl: "\<lfloor>x\<rfloor> = 0" using pos x by (simp add: floor_eq_iff)
  have fl2: "\<lfloor>x * 2\<rfloor> \<le> 1" using x by (simp add: floor_le_iff)
  have fl2': "0 \<le> \<lfloor>x * 2\<rfloor>" using pos by simp
  have y: "1 < 1 / x" using pos x by (simp add: field_simps)
  have half: "y / 2 \<le> n - 1" if "2 \<le> n" "y \<le> n" for y n :: real
    using that by linarith
  have "1 / (x * 2) \<le> of_int (\<lceil>1 / x\<rceil> - 1)"
  proof -
    have "2 \<le> \<lceil>1 / x\<rceil>" using y by linarith
    then have "(2 :: real) \<le> of_int \<lceil>1 / x\<rceil>" by linarith
    moreover have "1 / x \<le> of_int \<lceil>1 / x\<rceil>" by simp
    ultimately have "(1 / x) / 2 \<le> of_int \<lceil>1 / x\<rceil> - 1" by (rule half)
    then show ?thesis by (simp add: field_simps)
  qed
  then have ce: "\<lceil>1 / (x * 2)\<rceil> \<le> \<lceil>1 / x\<rceil> - 1" by (rule ceiling_le)
  have ce_pos: "0 < \<lceil>1 / (x * 2)\<rceil>" using pos by (simp add: field_simps)
  have "nat \<lfloor>x * 2\<rfloor> + 2 * nat \<lceil>1 / (x * 2)\<rceil> < nat \<lfloor>x\<rfloor> + 2 * nat \<lceil>1 / x\<rceil>"
    using fl fl2 fl2' ce ce_pos by linarith
  then show "(x * 2, x) \<in> measure (\<lambda>x. nat \<lfloor>x\<rfloor> + 2 * nat \<lceil>1 / x\<rceil>)"
    by (simp only: in_measure)
qed

declare ilog2.simps [simp del]

text \<open>Rounding to the nearest integer, ties to the even one.\<close>

definition round_half_even :: "real \<Rightarrow> int" where
  "round_half_even x = (let f = \<lfloor>x\<rfloor>; d = x - of_int f in
     if d < 1 / 2 then f
     else if 1 / 2 < d then f + 1
     else if even f then f else f + 1)"

text \<open>The binary64 number nearest to a real, ties to the even significand, before any
  overflow: 53 significant bits, and the fixed spacing \<open>2\<^sup>-\<^sup>1\<^sup>0\<^sup>7\<^sup>4\<close> below \<open>2\<^sup>-\<^sup>1\<^sup>0\<^sup>2\<^sup>2\<close>. A
  decimal literal of the source denotes the rounding of its value: \<^verbatim>\<open>0.3\<close> is \<open>rn 0.3\<close>.\<close>

definition rn :: "real \<Rightarrow> real" where
  "rn x = (if x = 0 then 0 else
     let e = max (ilog2 \<bar>x\<bar>) (- 1022);
         ulp = pow2 (e - 52)
     in sgn x * of_int (round_half_even (\<bar>x\<bar> / ulp)) * ulp)"

text \<open>The float product \<^verbatim>\<open>x * 100\<close>: the exact product rounded, an infinity when the
  rounded value is beyond the largest float.\<close>

definition float_mul100 :: "pyfloat \<Rightarrow> pyfloat" where
  "float_mul100 x = (case x of
       Fin r \<Rightarrow> (let y = rn (r * 100) in
                  if 2 ^ 1024 \<le> \<bar>y\<bar> then (if y < 0 then NInf else PInf) else Fin y)
     | NegZero \<Rightarrow> NegZero
     | PInf \<Rightarrow> PInf
     | NInf \<Rightarrow> NInf
     | NaN \<Rightarrow> NaN)"

subsection \<open>Formatting\<close>

definition digit_char :: "nat \<Rightarrow> char" where
  "digit_char d = char_of (48 + d)"

text \<open>\<^verbatim>\<open>str(n)\<close> for a natural number, as an f-string renders a count.\<close>

fun str_nat :: "nat \<Rightarrow> string" where
  "str_nat n = (if n < 10 then [digit_char n] else str_nat (n div 10) @ [digit_char (n mod 10)])"

declare str_nat.simps [simp del]

definition str_int :: "int \<Rightarrow> string" where
  "str_int i = (if i < 0 then ''-'' @ str_nat (nat (- i)) else str_nat (nat i))"

text \<open>The presentation \<^verbatim>\<open>.2f\<close> of a float: the decimal with two digits after the point
  nearest to the float's exact value, ties to the even digit, with the sign of the float.\<close>

definition format_fixed2 :: "pyfloat \<Rightarrow> string" where
  "format_fixed2 x = (case x of
       Fin r \<Rightarrow>
         (let n = nat (round_half_even (\<bar>r\<bar> * 100)) in
            (if r < 0 then ''-'' else '''')
            @ str_nat (n div 100) @ ''.''
            @ [digit_char (n mod 100 div 10), digit_char (n mod 10)])
     | NegZero \<Rightarrow> ''-0.00''
     | PInf \<Rightarrow> ''inf''
     | NInf \<Rightarrow> ''-inf''
     | NaN \<Rightarrow> ''nan'')"

text \<open>The format specification \<^verbatim>\<open>.2%\<close>: the float is multiplied by 100 as a float, the
  product is presented as \<^verbatim>\<open>.2f\<close> does, and a percent sign follows.\<close>

definition format_percent2 :: "pyfloat \<Rightarrow> string" where
  "format_percent2 x = format_fixed2 (float_mul100 x) @ ''%''"

subsection \<open>Strings\<close>

text \<open>\<^verbatim>\<open>str.lower\<close> on the ASCII letters; the keywords it is compared with are ASCII.\<close>

definition lower_char :: "char \<Rightarrow> char" where
  "lower_char c = (let n = (of_char c :: nat) in
     if 65 \<le> n \<and> n \<le> 90 then char_of (n + 32) else c)"

definition lower :: "string \<Rightarrow> string" where
  "lower s = map lower_char s"

text \<open>\<^verbatim>\<open>kw in s\<close> for strings: \<open>kw\<close> occurs in \<open>s\<close> as a contiguous substring.\<close>

fun str_in :: "string \<Rightarrow> string \<Rightarrow> bool" where
  "str_in kw [] = (kw = [])"
| "str_in kw (c # cs) = (prefix kw (c # cs) \<or> str_in kw cs)"

section \<open>WeedPestDetector\<close>

text \<open>A detection is the dictionary that \<^verbatim>\<open>detect\<close> builds, with its four fixed keys.\<close>

record detection =
  d_bbox :: "int \<times> int \<times> int \<times> int"
  d_confidence :: pyfloat
  d_label :: string
  d_category :: string

text \<open>What the YOLO model hands back: per result a list of boxes and the table \<^verbatim>\<open>names\<close>
  from class index to label.\<close>

record box =
  xyxy :: "pyfloat \<times> pyfloat \<times> pyfloat \<times> pyfloat"
  conf :: pyfloat
  cls :: pyfloat

record yolo_result =
  boxes :: "box list"
  names :: "int \<rightharpoonup> string"

text \<open>The detector object: the flag \<^verbatim>\<open>available\<close> and the loaded model, a call of which
  either raises (\<open>Inl\<close> the exception's message) or returns its results.\<close>

record 'img WeedPestDetector =
  available :: bool
  model :: "'img \<Rightarrow> string + yolo_result list"

text \<open>\<^verbatim>\<open>int(x)\<close> of a float truncates toward zero and raises on NaN and on an infinity.\<close>

definition py_int :: "pyfloat \<Rightarrow> string + int" where
  "py_int x = (case x of
       Fin r \<Rightarrow> Inr (if 0 \<le> r then \<lfloor>r\<rfloor> else \<lceil>r\<rceil>)
     | NegZero \<Rightarrow> Inr 0
     | NaN \<Rightarrow> Inl ''cannot convert float NaN to integer''
     | PInf \<Rightarrow> Inl ''cannot convert float infinity to integer''
     | NInf \<Rightarrow> Inl ''cannot convert float infinity to integer'')"

definition weed_keywords :: "string list" where
  "weed_keywords = [''plant'', ''potted plant'']"

definition pest_keywords :: "string list" where
  "pest_keywords = [''bird'', ''insect'', ''bee'']"

text \<open>\<^verbatim>\<open>_categorize_detection\<close>: \<open>None\<close> is Python's \<^verbatim>\<open>None\<close>.\<close>

definition categorize_detection :: "string \<Rightarrow> string option" where
  "categorize_detection label = (let label_lower = lower label in
     if list_ex (\<lambda>kw. str_in kw label_lower) weed_keywords then Some ''weed''
     else if list_ex (\<lambda>kw. str_in kw label_lower) pest_keywords then Some ''pest''
     else None)"

text \<open>The body of the inner loop for one box: the detection to append, if any, or the
  message of the exception raised on the way.\<close>

definition detect_box :: "yolo_result \<Rightarrow> box \<Rightarrow> string + detection option" where
  "detect_box result b =
     (case xyxy b of (x1, y1, x2, y2) \<Rightarrow>
       (case py_int (cls b) of Inl e \<Rightarrow> Inl e | Inr c \<Rightarrow>
         (case names result c of None \<Rightarrow> Inl (str_int c) | Some label \<Rightarrow>
           (case categorize_detection label of None \<Rightarrow> Inr None | Some category \<Rightarrow>
              if category = [] then Inr None else
               (case py_int x1 of Inl e \<Rightarrow> Inl e | Inr ix1 \<Rightarrow>
                 (case py_int y1 of Inl e \<Rightarrow> Inl e | Inr iy1 \<Rightarrow>
                   (case py_int x2 of Inl e \<Rightarrow> Inl e | Inr ix2 \<Rightarrow>
                     (case py_int y2 of Inl e \<Rightarrow> Inl e | Inr iy2 \<Rightarrow>
                        Inr (Some \<lparr>d_bbox = (ix1, iy1, ix2, iy2), d_confidence = conf b,
                                   d_label = label, d_category = category\<rparr>)))))))))"

fun detect_boxes :: "yolo_result \<Rightarrow> box list \<Rightarrow> detection list \<Rightarrow> string + detection list" where
  "detect_boxes result [] detections = Inr detections"
| "detect_boxes result (b # bs) detections =
     (case detect_box result b of
        Inl e \<Rightarrow> Inl e
      | Inr None \<Rightarrow> detect_boxes result bs detections
      | Inr (Some d) \<Rightarrow> detect_boxes result bs (detections @ [d]))"

fun detect_results :: "yolo_result list \<Rightarrow> detection list \<Rightarrow> string + detection list" where
  "detect_results [] detections = Inr detections"
| "detect_results (result # results) detections =
     (case detect_boxes result (boxes result) detections of
        Inl e \<Rightarrow> Inl e
      | Inr detections' \<Rightarrow> detect_results results detections')"

text \<open>\<^verbatim>\<open>detect\<close>: the \<^verbatim>\<open>try\<close> block covers the model call and both loops, and the handler
  returns the empty list with the message.\<close>

definition detect :: "'img WeedPestDetector \<Rightarrow> 'img \<Rightarrow> detection list \<times> string" where
  "detect self img =
     (if \<not> available self then ([], ''YOLOv8 not available'')
      else case model self img of
          Inl e \<Rightarrow> ([], ''Detection failed: '' @ e)
        | Inr results \<Rightarrow>
            (case detect_results results [] of
               Inl e \<Rightarrow> ([], ''Detection failed: '' @ e)
             | Inr detections \<Rightarrow> (detections, ''Success'')))"

section \<open>FusionEngine\<close>

text \<open>The engine's only attribute is the dictionary \<^verbatim>\<open>rules\<close> set by the constructor.\<close>

record FusionEngine =
  rules :: "string \<rightharpoonup> string list"

definition FusionEngine_init :: FusionEngine where
  "FusionEngine_init =
     \<lparr>rules = [''critical'' \<mapsto> [], ''warning'' \<mapsto> [], ''info'' \<mapsto> []]\<rparr>"

record diagnosis =
  crop_type :: string
  disease_name :: string
  overall_health :: string
  confidence :: pyfloat
  issues :: "string list"
  recommendations :: "string list"

text \<open>The rules of \<^verbatim>\<open>fuse_results\<close>, in the order of the source; each takes the diagnosis
  built so far and returns it with the entries it appends. The literal \<^verbatim>\<open>0.3\<close> of rules 1
  and 4 is the double \<open>rn 0.3\<close>. The mean of a single-precision array is a single-precision
  number; a comparison made in single precision has the same value, as no single-precision
  number lies between the double and the single-precision rounding of 0.3.\<close>

definition rule1_vegetation_index :: "pyfloat \<Rightarrow> diagnosis \<Rightarrow> diagnosis" where
  "rule1_vegetation_index avg_vi dg =
     (if float_lt avg_vi (rn 0.3) then
        dg\<lparr>issues := issues dg @ [''Low vegetation index detected (stress/disease likely)''],
           recommendations := recommendations dg
             @ [''Inspect for disease, water stress, or nutrient deficiency'']\<rparr>
      else dg)"

definition rule2_health_classification ::
    "string \<Rightarrow> pyfloat \<Rightarrow> string \<Rightarrow> diagnosis \<Rightarrow> diagnosis" where
  "rule2_health_classification health_status health_confidence dname dg =
     (let dg = dg\<lparr>overall_health := health_status, confidence := health_confidence\<rparr> in
      if health_status = ''Diseased'' then
        dg\<lparr>issues := issues dg
             @ [''Disease detected: '' @ dname @ '' (confidence: ''
                  @ format_percent2 health_confidence @ '')''],
           recommendations := recommendations dg
             @ [''Apply appropriate treatment for '' @ dname]\<rparr>
      else if health_status = ''Stressed'' then
        dg\<lparr>issues := issues dg
             @ [''Crop stress detected (confidence: ''
                  @ format_percent2 health_confidence @ '')''],
           recommendations := recommendations dg
             @ [''Check irrigation and nutrient levels'']\<rparr>
      else dg)"

definition rule3_weed_pest :: "detection list \<Rightarrow> diagnosis \<Rightarrow> diagnosis" where
  "rule3_weed_pest detections dg =
     (let weed_count = length (filter (\<lambda>d. d_category d = ''weed'') detections);
          pest_count = length (filter (\<lambda>d. d_category d = ''pest'') detections);
          dg = (if 0 < weed_count then
                  dg\<lparr>issues := issues dg @ [str_nat weed_count @ '' potential weed(s) detected''],
                     recommendations := recommendations dg
                       @ [''Consider targeted herbicide application or manual removal'']\<rparr>
                else dg)
      in if 0 < pest_count then
           dg\<lparr>issues := issues dg @ [str_nat pest_count @ '' potential pest(s) detected''],
              recommendations := recommendations dg
                @ [''Monitor pest population and apply IPM strategies'']\<rparr>
         else dg)"

definition rule4_combined :: "pyfloat \<Rightarrow> string \<Rightarrow> diagnosis \<Rightarrow> diagnosis" where
  "rule4_combined avg_vi health_status dg =
     (if float_lt avg_vi (rn 0.3) \<and> health_status = ''Diseased'' then
        dg\<lparr>issues := issues dg @ [''CRITICAL: Multiple stress factors detected''],
           recommendations := recommendations dg @ [''Immediate intervention required'']\<rparr>
      else dg)"

definition default_recommendations :: "diagnosis \<Rightarrow> diagnosis" where
  "default_recommendations dg =
     (if recommendations dg = [] then
        dg\<lparr>recommendations := recommendations dg @ [''Continue regular monitoring'']\<rparr>
      else dg)"

text \<open>\<^verbatim>\<open>fuse_results\<close> is a method: it takes the engine and hands it back, together with
  the diagnosis. The mask is the segmentation's array of class flags. \<^verbatim>\<open>np.mean\<close> is numpy's
  function, whose order of summation and precision are numpy's own: the model takes it as
  the argument \<open>np_mean\<close>, from the vegetation index (an array, or a single float) to the
  float that is its mean.\<close>

definition fuse_results ::
    "('vi \<Rightarrow> pyfloat) \<Rightarrow> FusionEngine \<Rightarrow> nat list list \<Rightarrow> string \<Rightarrow> pyfloat
       \<Rightarrow> detection list \<Rightarrow> 'vi \<Rightarrow> string \<Rightarrow> string \<Rightarrow> diagnosis \<times> FusionEngine" where
  "fuse_results np_mean self segmentation_mask health_status health_confidence detections
       vegetation_index dname ctype =
     (let dg = \<lparr>crop_type = ctype, disease_name = dname, overall_health = ''Unknown'',
                confidence = Fin 0, issues = [], recommendations = []\<rparr>;
          avg_vi = np_mean vegetation_index;
          dg = rule1_vegetation_index avg_vi dg;
          dg = rule2_health_classification health_status health_confidence dname dg;
          dg = rule3_weed_pest detections dg;
          dg = rule4_combined avg_vi health_status dg;
          dg = default_recommendations dg
      in (dg, self))"

section \<open>Auxiliary facts\<close>

text \<open>\<^verbatim>\<open>str_in\<close> is the substring relation.\<close>

lemma str_in_sublist: "str_in kw s = sublist kw s"
  by (induction s) (simp_all add: sublist_Cons_right)

lemma str_in_iff: "str_in kw s = (\<exists>ps ss. s = ps @ kw @ ss)"
  by (simp add: str_in_sublist sublist_def)


lemma digit_char_numeral:
  "digit_char 0 = CHR ''0''" "digit_char 1 = CHR ''1''" "digit_char 2 = CHR ''2''"
  "digit_char 3 = CHR ''3''" "digit_char 4 = CHR ''4''" "digit_char 5 = CHR ''5''"
  "digit_char 6 = CHR ''6''" "digit_char 7 = CHR ''7''" "digit_char 8 = CHR ''8''"
  "digit_char 9 = CHR ''9''" "digit_char (Suc 0) = CHR ''1''"
  by code_simp+

text \<open>The floats that the literals of the source and of the examples denote.\<close>

lemmas rn_eval = rn_def ilog2.simps pow2_def round_half_even_def Let_def

lemma rn_0_3: "rn 0.3 = 5404319552844595 / 18014398509481984"
  by (simp add: rn_eval)

lemma rn_0_1: "rn 0.1 = 3602879701896397 / 36028797018963968"
  by (simp add: rn_eval)

lemma rn_0_2999: "rn 0.2999 = 5402518112993647 / 18014398509481984"
  by (simp add: rn_eval)

lemma rn_0_5: "rn 0.5 = 1 / 2"
  by (simp add: rn_eval)

lemma rn_0_8: "rn 0.8 = 3602879701896397 / 4503599627370496"
  by (simp add: rn_eval)

lemma rn_0_9: "rn 0.9 = 8106479329266893 / 9007199254740992"
  by (simp add: rn_eval)

lemma rn_0_99: "rn 0.99 = 4458563631096791 / 4503599627370496"
  by (simp add: rn_eval)

lemma rn_0_80125: "rn 0.80125 = 1804254600715305 / 2251799813685248"
  by (simp add: rn_eval)

lemma rn_below_threshold: "rn 0.1 < rn 0.3" "rn 0.2999 < rn 0.3"
  unfolding rn_0_1 rn_0_2999 rn_0_3 by simp_all

lemma rn_not_below_threshold: "\<not> rn 0.3 < rn 0.3" "\<not> rn 0.5 < rn 0.3" "\<not> rn 0.8 < rn 0.3"
  unfolding rn_0_3 rn_0_5 rn_0_8 by simp_all

text \<open>The format \<^verbatim>\<open>.2%\<close> at some floats: \<^verbatim>\<open>0.80125 * 100\<close> is the float 80.125, a tie
  that goes to the even digit.\<close>

lemmas format_eval = format_percent2_def float_mul100_def format_fixed2_def rn_eval
  str_nat.simps digit_char_numeral

lemma format_percent2_0_9: "format_percent2 (Fin (rn 0.9)) = ''90.00%''"
  unfolding rn_0_9 by (simp add: format_eval)

lemma format_percent2_0_99: "format_percent2 (Fin (rn 0.99)) = ''99.00%''"
  unfolding rn_0_99 by (simp add: format_eval)

lemma format_percent2_0_80125: "format_percent2 (Fin (rn 0.80125)) = ''80.12%''"
  unfolding rn_0_80125 by (simp add: format_eval)

lemma format_percent2_special:
  "format_percent2 NegZero = ''-0.00%''" "format_percent2 NaN = ''nan%''"
  "format_percent2 PInf = ''inf%''" "format_percent2 NInf = ''-inf%''"
  by (simp_all add: format_percent2_def float_mul100_def format_fixed2_def)

lemma rule1_issues:
  "issues (rule1_vegetation_index a dg) = issues dg @
     (if float_lt a (rn 0.3) then [''Low vegetation index detected (stress/disease likely)''] else [])"
  by (simp add: rule1_vegetation_index_def)

lemma rule1_recommendations:
  "recommendations (rule1_vegetation_index a dg) = recommendations dg @
     (if float_lt a (rn 0.3) then [''Inspect for disease, water stress, or nutrient deficiency'']
      else [])"
  by (simp add: rule1_vegetation_index_def)

lemma rule2_issues:
  "issues (rule2_health_classification st c dn dg) = issues dg @
     (if st = ''Diseased''
      then [''Disease detected: '' @ dn @ '' (confidence: '' @ format_percent2 c @ '')'']
      else if st = ''Stressed''
      then [''Crop stress detected (confidence: '' @ format_percent2 c @ '')'']
      else [])"
  by (simp add: rule2_health_classification_def Let_def)

lemma rule2_recommendations:
  "recommendations (rule2_health_classification st c dn dg) = recommendations dg @
     (if st = ''Diseased'' then [''Apply appropriate treatment for '' @ dn]
      else if st = ''Stressed'' then [''Check irrigation and nutrient levels'']
      else [])"
  by (simp add: rule2_health_classification_def Let_def)

lemma rule3_issues:
  "issues (rule3_weed_pest ds dg) = issues dg @
     (if 0 < length (filter (\<lambda>d. d_category d = ''weed'') ds)
      then [str_nat (length (filter (\<lambda>d. d_category d = ''weed'') ds))
              @ '' potential weed(s) detected'']
      else [])
     @ (if 0 < length (filter (\<lambda>d. d_category d = ''pest'') ds)
        then [str_nat (length (filter (\<lambda>d. d_category d = ''pest'') ds))
                @ '' potential pest(s) detected'']
        else [])"
  by (simp add: rule3_weed_pest_def Let_def)

lemma rule3_recommendations:
  "recommendations (rule3_weed_pest ds dg) = recommendations dg @
     (if 0 < length (filter (\<lambda>d. d_category d = ''weed'') ds)
      then [''Consider targeted herbicide application or manual removal''] else [])
     @ (if 0 < length (filter (\<lambda>d. d_category d = ''pest'') ds)
        then [''Monitor pest population and apply IPM strategies''] else [])"
  by (simp add: rule3_weed_pest_def Let_def)

lemma rule4_issues:
  "issues (rule4_combined a st dg) = issues dg @
     (if float_lt a (rn 0.3) \<and> st = ''Diseased''
      then [''CRITICAL: Multiple stress factors detected''] else [])"
  by (simp add: rule4_combined_def)

lemma rule4_recommendations:
  "recommendations (rule4_combined a st dg) = recommendations dg @
     (if float_lt a (rn 0.3) \<and> st = ''Diseased''
      then [''Immediate intervention required''] else [])"
  by (simp add: rule4_combined_def)

lemma default_issues: "issues (default_recommendations dg) = issues dg"
  by (simp add: default_recommendations_def)

lemma default_recommendations_eq:
  "recommendations (default_recommendations dg) =
     (if recommendations dg = [] then [''Continue regular monitoring'']
      else recommendations dg)"
  by (simp add: default_recommendations_def)

lemma fuse_unfold:
  "fst (fuse_results np_mean self m st c ds vi dn ct) =
     default_recommendations (rule4_combined (np_mean vi) st (rule3_weed_pest ds
       (rule2_health_classification st c dn (rule1_vegetation_index (np_mean vi)
         \<lparr>crop_type = ct, disease_name = dn, overall_health = ''Unknown'',
          confidence = Fin 0, issues = [], recommendations = []\<rparr>))))"
  by (simp only: fuse_results_def Let_def fst_conv)

lemma fuse_issues:
  "issues (fst (fuse_results np_mean self m st c ds vi dn ct)) =
     (if float_lt (np_mean vi) (rn 0.3)
      then [''Low vegetation index detected (stress/disease likely)''] else [])
     @ (if st = ''Diseased''
        then [''Disease detected: '' @ dn @ '' (confidence: '' @ format_percent2 c @ '')'']
        else if st = ''Stressed''
        then [''Crop stress detected (confidence: '' @ format_percent2 c @ '')'']
        else [])
     @ (if 0 < length (filter (\<lambda>d. d_category d = ''weed'') ds)
        then [str_nat (length (filter (\<lambda>d. d_category d = ''weed'') ds))
                @ '' potential weed(s) detected'']
        else [])
     @ (if 0 < length (filter (\<lambda>d. d_category d = ''pest'') ds)
        then [str_nat (length (filter (\<lambda>d. d_category d = ''pest'') ds))
                @ '' potential pest(s) detected'']
        else [])
     @ (if float_lt (np_mean vi) (rn 0.3) \<and> st = ''Diseased''
        then [''CRITICAL: Multiple stress factors detected''] else [])"
  unfolding fuse_unfold default_issues rule4_issues rule3_issues rule2_issues rule1_issues
  by (simp only: diagnosis.simps append_Nil append_assoc)


lemma prior_recommendations:
  "recommendations (rule4_combined a st (rule3_weed_pest ds
      (rule2_health_classification st c dn (rule1_vegetation_index a
        \<lparr>crop_type = ct, disease_name = dn, overall_health = ''Unknown'',
         confidence = Fin 0, issues = [], recommendations = []\<rparr>)))) =
     (if float_lt a (rn 0.3)
      then [''Inspect for disease, water stress, or nutrient deficiency''] else [])
     @ (if st = ''Diseased'' then [''Apply appropriate treatment for '' @ dn]
        else if st = ''Stressed'' then [''Check irrigation and nutrient levels'']
        else [])
     @ (if 0 < length (filter (\<lambda>d. d_category d = ''weed'') ds)
        then [''Consider targeted herbicide application or manual removal''] else [])
     @ (if 0 < length (filter (\<lambda>d. d_category d = ''pest'') ds)
        then [''Monitor pest population and apply IPM strategies''] else [])
     @ (if float_lt a (rn 0.3) \<and> st = ''Diseased''
        then [''Immediate intervention required''] else [])"
  unfolding rule4_recommendations rule3_recommendations rule2_recommendations
    rule1_recommendations
  by (simp only: diagnosis.simps append_Nil append_assoc)

lemma fuse_recommendations:
  "recommendations (fst (fuse_results np_mean self m st c ds vi dn ct)) =
     (let rs = recommendations (rule4_combined (np_mean vi) st (rule3_weed_pest ds
        (rule2_health_classification st c dn (rule1_vegetation_index (np_mean vi)
          \<lparr>crop_type = ct, disease_name = dn, overall_health = ''Unknown'',
           confidence = Fin 0, issues = [], recommendations = []\<rparr>))))
      in if rs = [] then [''Continue regular monitoring''] else rs)"
  unfolding fuse_unfold default_recommendations_eq by (simp only: Let_def)

lemma fuse_engine: "snd (fuse_results np_mean self m st c ds vi dn ct) = self"
  by (simp only: fuse_results_def Let_def snd_conv)

lemma float_lt_Fin: "float_lt (Fin x) c = (x < c)"
  by (simp add: float_lt_def)

lemma float_lt_other:
  "float_lt NegZero c = (0 < c)" "float_lt NInf c" "\<not> float_lt PInf c" "\<not> float_lt NaN c"
  by (simp_all add: float_lt_def)

section \<open>The fusion rules\<close>

text \<open>
  C1. For every engine, mask, health record, detection list and vegetation-index array,
  \<^verbatim>\<open>fuse_results\<close> returns a diagnosis (the function has no error branch and hands the
  engine back unchanged), and the diagnosis has at least one recommendation. When the
  recommendations are still empty after rules 1 to 4, the default rule makes them the single
  entry \<^verbatim>\<open>Continue regular monitoring\<close>.
\<close>

theorem fuse_total_recommendations_nonempty:
  "\<exists>dg. fuse_results np_mean self m st c ds vi dn ct = (dg, self)
      \<and> recommendations dg \<noteq> []
      \<and> (recommendations (rule4_combined (np_mean vi) st (rule3_weed_pest ds
            (rule2_health_classification st c dn (rule1_vegetation_index (np_mean vi)
              \<lparr>crop_type = ct, disease_name = dn, overall_health = ''Unknown'',
               confidence = Fin 0, issues = [], recommendations = []\<rparr>)))) = []
          \<longrightarrow> recommendations dg = [''Continue regular monitoring''])"
proof -
  let ?r = "fuse_results np_mean self m st c ds vi dn ct"
  have pair: "?r = (fst ?r, self)"
    using fuse_engine [of np_mean self m st c ds vi dn ct] by (metis prod.collapse)
  have nonempty: "recommendations (fst ?r) \<noteq> []"
    by (simp add: fuse_recommendations Let_def)
  have fallback: "recommendations (rule4_combined (np_mean vi) st (rule3_weed_pest ds
            (rule2_health_classification st c dn (rule1_vegetation_index (np_mean vi)
              \<lparr>crop_type = ct, disease_name = dn, overall_health = ''Unknown'',
               confidence = Fin 0, issues = [], recommendations = []\<rparr>)))) = []
          \<longrightarrow> recommendations (fst ?r) = [''Continue regular monitoring'']"
    by (simp add: fuse_recommendations Let_def)
  from pair nonempty fallback show ?thesis by blast
qed

theorem fuse_total_recommendations_nonempty_witness:
  "recommendations (rule4_combined (id (Fin (rn 0.8))) ''Healthy'' (rule3_weed_pest []
      (rule2_health_classification ''Healthy'' (Fin (rn 0.99)) ''healthy''
        (rule1_vegetation_index (id (Fin (rn 0.8)))
          \<lparr>crop_type = ''Corn'', disease_name = ''healthy'', overall_health = ''Unknown'',
           confidence = Fin 0, issues = [], recommendations = []\<rparr>)))) = []
   \<and> recommendations (fst (fuse_results id FusionEngine_init [] ''Healthy'' (Fin (rn 0.99)) []
        (Fin (rn 0.8)) ''healthy'' ''Corn'')) = [''Continue regular monitoring'']"
proof -
  have prior: "recommendations (rule4_combined (id (Fin (rn 0.8))) ''Healthy''
      (rule3_weed_pest []
      (rule2_health_classification ''Healthy'' (Fin (rn 0.99)) ''healthy''
        (rule1_vegetation_index (id (Fin (rn 0.8)))
          \<lparr>crop_type = ''Corn'', disease_name = ''healthy'', overall_health = ''Unknown'',
           confidence = Fin 0, issues = [], recommendations = []\<rparr>)))) = []"
    using rn_below_threshold rn_not_below_threshold format_percent2_0_9
    by (simp add: prior_recommendations id_apply float_lt_Fin)
  obtain dg where run: "fuse_results id FusionEngine_init [] ''Healthy'' (Fin (rn 0.99)) []
        (Fin (rn 0.8)) ''healthy'' ''Corn'' = (dg, FusionEngine_init)"
    and fb: "recommendations (rule4_combined (id (Fin (rn 0.8))) ''Healthy''
      (rule3_weed_pest []
      (rule2_health_classification ''Healthy'' (Fin (rn 0.99)) ''healthy''
        (rule1_vegetation_index (id (Fin (rn 0.8)))
          \<lparr>crop_type = ''Corn'', disease_name = ''healthy'', overall_health = ''Unknown'',
           confidence = Fin 0, issues = [], recommendations = []\<rparr>)))) = []
       \<longrightarrow> recommendations dg = [''Continue regular monitoring'']"
    using fuse_total_recommendations_nonempty [of id FusionEngine_init "[]" "''Healthy''"
        "Fin (rn 0.99)" "[]" "Fin (rn 0.8)" "''healthy''" "''Corn''"]
    by blast
  from fb prior have "recommendations dg = [''Continue regular monitoring'']" by blast
  with run prior show ?thesis by simp
qed


text \<open>
  C2 (as amended). For \<^verbatim>\<open>avg_vi = 0.1\<close>, health \<^verbatim>\<open>Diseased\<close> with confidence 0.9, disease
  \<^verbatim>\<open>Leaf Blight\<close>, crop \<^verbatim>\<open>Tomato\<close> and no detection, the issues are exactly three: the
  low-vegetation-index entry, the disease entry naming \<^verbatim>\<open>Leaf Blight\<close> with the confidence
  rendered by the format \<^verbatim>\<open>.2%\<close> as \<^verbatim>\<open>90.00%\<close> (two digits after the point), and the
  CRITICAL entry.
\<close>

theorem fuse_leaf_blight_issues:
  "issues (fst (fuse_results id FusionEngine_init [] ''Diseased'' (Fin (rn 0.9)) [] (Fin (rn 0.1))
      ''Leaf Blight'' ''Tomato'')) =
     [''Low vegetation index detected (stress/disease likely)'',
      ''Disease detected: Leaf Blight (confidence: 90.00%)'',
      ''CRITICAL: Multiple stress factors detected'']"
  using rn_below_threshold rn_not_below_threshold format_percent2_0_9
  by (simp add: fuse_issues id_apply float_lt_Fin)

text \<open>
  C2 as stated fails: no issue of that diagnosis contains the text \<^verbatim>\<open>90.0%\<close>, the
  rendering with one digit after the point.
\<close>

theorem fuse_leaf_blight_one_decimal_counterexample:
  "\<not> list_ex (str_in ''90.0%'')
      (issues (fst (fuse_results id FusionEngine_init [] ''Diseased'' (Fin (rn 0.9)) [] (Fin (rn 0.1))
         ''Leaf Blight'' ''Tomato'')))"
  using rn_below_threshold rn_not_below_threshold format_percent2_0_9
  by (simp add: fuse_issues id_apply float_lt_Fin)

text \<open>
  C3 (as amended). For \<^verbatim>\<open>avg_vi = 0.8\<close>, health \<^verbatim>\<open>Healthy\<close> with confidence 0.99, disease
  name \<^verbatim>\<open>healthy\<close>, crop \<^verbatim>\<open>Corn\<close> and no detection, the issues are empty and the
  recommendations are the one-element list holding \<^verbatim>\<open>Continue regular monitoring\<close>, with
  the capital letter of the source.
\<close>

theorem fuse_healthy_corn:
  "issues (fst (fuse_results id FusionEngine_init [] ''Healthy'' (Fin (rn 0.99)) [] (Fin (rn 0.8))
      ''healthy'' ''Corn'')) = []
   \<and> recommendations (fst (fuse_results id FusionEngine_init [] ''Healthy'' (Fin (rn 0.99)) []
        (Fin (rn 0.8)) ''healthy'' ''Corn'')) = [''Continue regular monitoring'']"
  using rn_below_threshold rn_not_below_threshold format_percent2_0_9
  by (simp add: fuse_issues fuse_recommendations prior_recommendations id_apply
      float_lt_Fin Let_def)

text \<open>
  C3 as stated fails: the list is not the one holding the all-lowercase string.
\<close>

theorem fuse_healthy_corn_lowercase_counterexample:
  "recommendations (fst (fuse_results id FusionEngine_init [] ''Healthy'' (Fin (rn 0.99)) []
        (Fin (rn 0.8)) ''healthy'' ''Corn'')) \<noteq> [''continue regular monitoring'']"
  using rn_below_threshold rn_not_below_threshold format_percent2_0_9
  by (simp add: fuse_recommendations prior_recommendations id_apply
      float_lt_Fin Let_def)


lemma of_char_digit_char: "d < 10 \<Longrightarrow> of_char (digit_char d) = (48 + d :: nat)"
  by (simp add: digit_char_def)

lemma str_nat_first:
  "\<exists>d cs. d < 10 \<and> str_nat n = digit_char d # cs"
proof (induction n rule: str_nat.induct)
  case (1 n)
  show ?case
  proof (cases "n < 10")
    case True
    then show ?thesis by (subst str_nat.simps) auto
  next
    case False
    with 1 obtain d cs where "d < 10" "str_nat (n div 10) = digit_char d # cs" by blast
    with False show ?thesis by (subst str_nat.simps) auto
  qed
qed

lemma str_nat_append_neq:
  assumes "(of_char c :: nat) < 48 \<or> 57 < (of_char c :: nat)"
  shows "c # s \<noteq> str_nat n @ t" and "str_nat n @ t \<noteq> c # s"
proof -
  obtain d cs where d: "d < 10" "str_nat n = digit_char d # cs"
    using str_nat_first by blast
  have "c \<noteq> digit_char d"
    using assms of_char_digit_char [OF d(1)] d(1) by auto
  with d(2) show "c # s \<noteq> str_nat n @ t" and "str_nat n @ t \<noteq> c # s" by auto
qed

text \<open>
  C4. The vegetation-stress rule compares strictly with the float that the literal
  \<^verbatim>\<open>0.3\<close> denotes, \<open>rn 0.3\<close> (the double 5404319552844595 / 18014398509481984): when the
  mean of the index array is the finite float \<open>x\<close>, the low-vegetation-index issue and its
  recommendation are among the entries of the diagnosis exactly when \<open>x < rn 0.3\<close>. So a
  mean that is the float 0.3 itself does not trigger the rule, and every float below it
  (the float 0.2999 for one) does.
\<close>

theorem vegetation_threshold_strict:
  "np_mean vi = Fin x \<Longrightarrow>
     (''Low vegetation index detected (stress/disease likely)''
        \<in> set (issues (fst (fuse_results np_mean self m st c ds vi dn ct)))) = (x < rn 0.3)
     \<and> (''Inspect for disease, water stress, or nutrient deficiency''
        \<in> set (recommendations (fst (fuse_results np_mean self m st c ds vi dn ct))))
         = (x < rn 0.3)"
  by (simp add: fuse_issues fuse_recommendations prior_recommendations float_lt_Fin Let_def
      str_nat_append_neq)

theorem vegetation_threshold_strict_witness:
  "''Low vegetation index detected (stress/disease likely)''
        \<notin> set (issues (fst (fuse_results id FusionEngine_init [] ''Diseased'' (Fin (rn 0.9)) []
              (Fin (rn 0.3)) ''Leaf Blight'' ''Tomato'')))
   \<and> ''Inspect for disease, water stress, or nutrient deficiency''
        \<notin> set (recommendations (fst (fuse_results id FusionEngine_init [] ''Diseased''
              (Fin (rn 0.9)) [] (Fin (rn 0.3)) ''Leaf Blight'' ''Tomato'')))
   \<and> ''Low vegetation index detected (stress/disease likely)''
        \<in> set (issues (fst (fuse_results id FusionEngine_init [] ''Diseased'' (Fin (rn 0.9)) []
              (Fin (rn 0.2999)) ''Leaf Blight'' ''Tomato'')))
   \<and> ''Inspect for disease, water stress, or nutrient deficiency''
        \<in> set (recommendations (fst (fuse_results id FusionEngine_init [] ''Diseased''
              (Fin (rn 0.9)) [] (Fin (rn 0.2999)) ''Leaf Blight'' ''Tomato'')))"
proof -
  have at: "id (Fin (rn 0.3)) = Fin (rn 0.3)"
    and below: "id (Fin (rn 0.2999)) = Fin (rn 0.2999)"
    by (simp_all only: id_apply)
  note not_triggered = vegetation_threshold_strict [where np_mean = id
      and vi = "Fin (rn 0.3)" and x = "rn 0.3" and self = FusionEngine_init
      and m = "[]" and st = "''Diseased''" and c = "Fin (rn 0.9)" and ds = "[]"
      and dn = "''Leaf Blight''" and ct = "''Tomato''", OF at]
  note triggered = vegetation_threshold_strict [where np_mean = id
      and vi = "Fin (rn 0.2999)" and x = "rn 0.2999" and self = FusionEngine_init
      and m = "[]" and st = "''Diseased''" and c = "Fin (rn 0.9)" and ds = "[]"
      and dn = "''Leaf Blight''" and ct = "''Tomato''", OF below]
  from not_triggered triggered rn_below_threshold(2) rn_not_below_threshold(1)
  show ?thesis by (simp only: simp_thms)
qed






text \<open>
  C6. Whenever the mean vegetation index is below the float 0.3 of rule 1 and the health
  status is \<^verbatim>\<open>Diseased\<close>, the diagnosis keeps the low-vegetation-index entry of rule 1 and
  the disease entry of rule 2, followed by the entries of rule 3, and rule 4 adds the entry
  \<^verbatim>\<open>CRITICAL: Multiple stress factors detected\<close> after them; the recommendations likewise
  keep those of rules 1 to 3 and end with \<^verbatim>\<open>Immediate intervention required\<close>. Nothing is
  replaced or merged.
\<close>

theorem compound_critical_appended:
  "float_lt (np_mean vi) (rn 0.3) \<Longrightarrow>
     issues (fst (fuse_results np_mean self m ''Diseased'' c ds vi dn ct)) =
       [''Low vegetation index detected (stress/disease likely)'',
        ''Disease detected: '' @ dn @ '' (confidence: '' @ format_percent2 c @ '')'']
       @ (if 0 < length (filter (\<lambda>d. d_category d = ''weed'') ds)
          then [str_nat (length (filter (\<lambda>d. d_category d = ''weed'') ds))
                  @ '' potential weed(s) detected'']
          else [])
       @ (if 0 < length (filter (\<lambda>d. d_category d = ''pest'') ds)
          then [str_nat (length (filter (\<lambda>d. d_category d = ''pest'') ds))
                  @ '' potential pest(s) detected'']
          else [])
       @ [''CRITICAL: Multiple stress factors detected'']
     \<and> recommendations (fst (fuse_results np_mean self m ''Diseased'' c ds vi dn ct)) =
       [''Inspect for disease, water stress, or nutrient deficiency'',
        ''Apply appropriate treatment for '' @ dn]
       @ (if 0 < length (filter (\<lambda>d. d_category d = ''weed'') ds)
          then [''Consider targeted herbicide application or manual removal''] else [])
       @ (if 0 < length (filter (\<lambda>d. d_category d = ''pest'') ds)
          then [''Monitor pest population and apply IPM strategies''] else [])
       @ [''Immediate intervention required'']"
  by (simp add: fuse_issues fuse_recommendations prior_recommendations Let_def)

theorem compound_critical_appended_witness:
  "float_lt (id (Fin (rn 0.1))) (rn 0.3)
   \<and> issues (fst (fuse_results id FusionEngine_init [] ''Diseased'' (Fin (rn 0.80125)) []
        (Fin (rn 0.1)) ''Leaf Blight'' ''Tomato'')) =
       [''Low vegetation index detected (stress/disease likely)'',
        ''Disease detected: Leaf Blight (confidence: 80.12%)'',
        ''CRITICAL: Multiple stress factors detected'']
   \<and> recommendations (fst (fuse_results id FusionEngine_init [] ''Diseased'' (Fin (rn 0.80125)) []
        (Fin (rn 0.1)) ''Leaf Blight'' ''Tomato'')) =
       [''Inspect for disease, water stress, or nutrient deficiency'',
        ''Apply appropriate treatment for Leaf Blight'',
        ''Immediate intervention required'']"
proof -
  have below: "float_lt (id (Fin (rn 0.1))) (rn 0.3)"
    using rn_below_threshold(1) by (simp only: id_apply float_lt_Fin)
  note run = compound_critical_appended [where np_mean = id and vi = "Fin (rn 0.1)"
      and self = FusionEngine_init and m = "[]" and c = "Fin (rn 0.80125)" and ds = "[]"
      and dn = "''Leaf Blight''" and ct = "''Tomato''", OF below]
  from below run format_percent2_0_80125 show ?thesis by simp
qed

lemma rule1_health:
  "overall_health (rule1_vegetation_index a dg) = overall_health dg"
  "confidence (rule1_vegetation_index a dg) = confidence dg"
  by (simp_all add: rule1_vegetation_index_def)

lemma rule2_health:
  "overall_health (rule2_health_classification st c dn dg) = st"
  "confidence (rule2_health_classification st c dn dg) = c"
  by (simp_all add: rule2_health_classification_def Let_def)

lemma rule3_health:
  "overall_health (rule3_weed_pest ds dg) = overall_health dg"
  "confidence (rule3_weed_pest ds dg) = confidence dg"
  by (simp_all add: rule3_weed_pest_def Let_def)

lemma rule4_health:
  "overall_health (rule4_combined a st dg) = overall_health dg"
  "confidence (rule4_combined a st dg) = confidence dg"
  by (simp_all add: rule4_combined_def)

lemma default_health:
  "overall_health (default_recommendations dg) = overall_health dg"
  "confidence (default_recommendations dg) = confidence dg"
  by (simp_all add: default_recommendations_def)

text \<open>
  C7. The diagnosis of \<^verbatim>\<open>fuse_results\<close> carries the given status as \<^verbatim>\<open>overall_health\<close> and the
  given confidence as \<^verbatim>\<open>confidence\<close>, unchanged. For the status \<^verbatim>\<open>Healthy\<close> or
  \<^verbatim>\<open>Unknown\<close>, rule 2 leaves issues and recommendations as they were, so that the issues of
  the whole diagnosis are those of rules 1 and 3 only, and its recommendations those of
  rules 1 and 3, or the default entry when there is none. For the status \<^verbatim>\<open>Stressed\<close>,
  the diagnosis of \<^verbatim>\<open>fuse_results\<close> holds, after the entry of rule 1 and before those of
  rule 3, the issue \<^verbatim>\<open>Crop stress detected\<close> with the confidence in the format \<^verbatim>\<open>.2%\<close>,
  and at the same place of the recommendations \<^verbatim>\<open>Check irrigation and nutrient levels\<close>.
\<close>

theorem health_status_rule:
  "overall_health (fst (fuse_results np_mean self m st c ds vi dn ct)) = st
   \<and> confidence (fst (fuse_results np_mean self m st c ds vi dn ct)) = c
   \<and> (st = ''Healthy'' \<or> st = ''Unknown'' \<longrightarrow>
        issues (rule2_health_classification st c dn dg) = issues dg
        \<and> recommendations (rule2_health_classification st c dn dg) = recommendations dg
        \<and> issues (fst (fuse_results np_mean self m st c ds vi dn ct)) =
            (if float_lt (np_mean vi) (rn 0.3)
             then [''Low vegetation index detected (stress/disease likely)''] else [])
            @ (if 0 < length (filter (\<lambda>d. d_category d = ''weed'') ds)
               then [str_nat (length (filter (\<lambda>d. d_category d = ''weed'') ds))
                       @ '' potential weed(s) detected'']
               else [])
            @ (if 0 < length (filter (\<lambda>d. d_category d = ''pest'') ds)
               then [str_nat (length (filter (\<lambda>d. d_category d = ''pest'') ds))
                       @ '' potential pest(s) detected'']
               else [])
        \<and> recommendations (fst (fuse_results np_mean self m st c ds vi dn ct)) =
            (if \<not> float_lt (np_mean vi) (rn 0.3)
                \<and> filter (\<lambda>d. d_category d = ''weed'') ds = []
                \<and> filter (\<lambda>d. d_category d = ''pest'') ds = []
             then [''Continue regular monitoring'']
             else (if float_lt (np_mean vi) (rn 0.3)
                   then [''Inspect for disease, water stress, or nutrient deficiency'']
                   else [])
               @ (if 0 < length (filter (\<lambda>d. d_category d = ''weed'') ds)
                  then [''Consider targeted herbicide application or manual removal'']
                  else [])
               @ (if 0 < length (filter (\<lambda>d. d_category d = ''pest'') ds)
                  then [''Monitor pest population and apply IPM strategies''] else [])))
   \<and> (st = ''Stressed'' \<longrightarrow>
        issues (rule2_health_classification st c dn dg) = issues dg
          @ [''Crop stress detected (confidence: '' @ format_percent2 c @ '')'']
        \<and> recommendations (rule2_health_classification st c dn dg) = recommendations dg
          @ [''Check irrigation and nutrient levels'']
        \<and> issues (fst (fuse_results np_mean self m st c ds vi dn ct)) =
            (if float_lt (np_mean vi) (rn 0.3)
             then [''Low vegetation index detected (stress/disease likely)''] else [])
            @ [''Crop stress detected (confidence: '' @ format_percent2 c @ '')'']
            @ (if 0 < length (filter (\<lambda>d. d_category d = ''weed'') ds)
               then [str_nat (length (filter (\<lambda>d. d_category d = ''weed'') ds))
                       @ '' potential weed(s) detected'']
               else [])
            @ (if 0 < length (filter (\<lambda>d. d_category d = ''pest'') ds)
               then [str_nat (length (filter (\<lambda>d. d_category d = ''pest'') ds))
                       @ '' potential pest(s) detected'']
               else [])
        \<and> recommendations (fst (fuse_results np_mean self m st c ds vi dn ct)) =
            (if float_lt (np_mean vi) (rn 0.3)
             then [''Inspect for disease, water stress, or nutrient deficiency''] else [])
            @ [''Check irrigation and nutrient levels'']
            @ (if 0 < length (filter (\<lambda>d. d_category d = ''weed'') ds)
               then [''Consider targeted herbicide application or manual removal'']
               else [])
            @ (if 0 < length (filter (\<lambda>d. d_category d = ''pest'') ds)
               then [''Monitor pest population and apply IPM strategies''] else []))"
proof -
  have status: "overall_health (fst (fuse_results np_mean self m st c ds vi dn ct)) = st"
    and conf: "confidence (fst (fuse_results np_mean self m st c ds vi dn ct)) = c"
    by (simp_all only: fuse_unfold default_health rule4_health rule3_health rule2_health)
  have quiet_rule: "st = ''Healthy'' \<or> st = ''Unknown'' \<Longrightarrow>
        issues (rule2_health_classification st c dn dg) = issues dg
        \<and> recommendations (rule2_health_classification st c dn dg) = recommendations dg"
    by (auto simp add: rule2_issues rule2_recommendations)
  have quiet_issues: "st = ''Healthy'' \<or> st = ''Unknown'' \<Longrightarrow>
        issues (fst (fuse_results np_mean self m st c ds vi dn ct)) =
            (if float_lt (np_mean vi) (rn 0.3)
             then [''Low vegetation index detected (stress/disease likely)''] else [])
            @ (if 0 < length (filter (\<lambda>d. d_category d = ''weed'') ds)
               then [str_nat (length (filter (\<lambda>d. d_category d = ''weed'') ds))
                       @ '' potential weed(s) detected'']
               else [])
            @ (if 0 < length (filter (\<lambda>d. d_category d = ''pest'') ds)
               then [str_nat (length (filter (\<lambda>d. d_category d = ''pest'') ds))
                       @ '' potential pest(s) detected'']
               else [])"
    by (auto simp add: fuse_issues)
  have quiet_recs: "st = ''Healthy'' \<or> st = ''Unknown'' \<Longrightarrow>
        recommendations (fst (fuse_results np_mean self m st c ds vi dn ct)) =
            (if \<not> float_lt (np_mean vi) (rn 0.3)
                \<and> filter (\<lambda>d. d_category d = ''weed'') ds = []
                \<and> filter (\<lambda>d. d_category d = ''pest'') ds = []
             then [''Continue regular monitoring'']
             else (if float_lt (np_mean vi) (rn 0.3)
                   then [''Inspect for disease, water stress, or nutrient deficiency'']
                   else [])
               @ (if 0 < length (filter (\<lambda>d. d_category d = ''weed'') ds)
                  then [''Consider targeted herbicide application or manual removal'']
                  else [])
               @ (if 0 < length (filter (\<lambda>d. d_category d = ''pest'') ds)
                  then [''Monitor pest population and apply IPM strategies''] else []))"
    by (auto simp add: fuse_recommendations prior_recommendations Let_def)
  have stressed_rule: "st = ''Stressed'' \<Longrightarrow>
        issues (rule2_health_classification st c dn dg) = issues dg
          @ [''Crop stress detected (confidence: '' @ format_percent2 c @ '')'']
        \<and> recommendations (rule2_health_classification st c dn dg) = recommendations dg
          @ [''Check irrigation and nutrient levels'']"
    by (simp add: rule2_issues rule2_recommendations)
  have stressed_issues: "st = ''Stressed'' \<Longrightarrow>
        issues (fst (fuse_results np_mean self m st c ds vi dn ct)) =
            (if float_lt (np_mean vi) (rn 0.3)
             then [''Low vegetation index detected (stress/disease likely)''] else [])
            @ [''Crop stress detected (confidence: '' @ format_percent2 c @ '')'']
            @ (if 0 < length (filter (\<lambda>d. d_category d = ''weed'') ds)
               then [str_nat (length (filter (\<lambda>d. d_category d = ''weed'') ds))
                       @ '' potential weed(s) detected'']
               else [])
            @ (if 0 < length (filter (\<lambda>d. d_category d = ''pest'') ds)
               then [str_nat (length (filter (\<lambda>d. d_category d = ''pest'') ds))
                       @ '' potential pest(s) detected'']
               else [])"
    by (simp add: fuse_issues)
  have stressed_recs: "st = ''Stressed'' \<Longrightarrow>
        recommendations (fst (fuse_results np_mean self m st c ds vi dn ct)) =
            (if float_lt (np_mean vi) (rn 0.3)
             then [''Inspect for disease, water stress, or nutrient deficiency''] else [])
            @ [''Check irrigation and nutrient levels'']
            @ (if 0 < length (filter (\<lambda>d. d_category d = ''weed'') ds)
               then [''Consider targeted herbicide application or manual removal'']
               else [])
            @ (if 0 < length (filter (\<lambda>d. d_category d = ''pest'') ds)
               then [''Monitor pest population and apply IPM strategies''] else [])"
    by (simp add: fuse_recommendations prior_recommendations Let_def)
  from status conf quiet_rule quiet_issues quiet_recs stressed_rule stressed_issues
    stressed_recs
  show ?thesis by (intro conjI impI) blast+
qed

theorem health_status_rule_witness:
  "overall_health (fst (fuse_results id FusionEngine_init [] ''Healthy'' (Fin (rn 0.99)) []
      (Fin (rn 0.8)) ''healthy'' ''Corn'')) = ''Healthy''
   \<and> confidence (fst (fuse_results id FusionEngine_init [] ''Healthy'' (Fin (rn 0.99)) []
      (Fin (rn 0.8)) ''healthy'' ''Corn'')) = Fin (rn 0.99)
   \<and> issues (fst (fuse_results id FusionEngine_init [] ''Healthy'' (Fin (rn 0.99)) []
      (Fin (rn 0.8)) ''healthy'' ''Corn'')) = []
   \<and> recommendations (fst (fuse_results id FusionEngine_init [] ''Healthy'' (Fin (rn 0.99)) []
      (Fin (rn 0.8)) ''healthy'' ''Corn'')) = [''Continue regular monitoring'']
   \<and> overall_health (fst (fuse_results id FusionEngine_init [] ''Stressed'' (Fin (rn 0.80125))
      [] (Fin (rn 0.1)) ''drought'' ''Corn'')) = ''Stressed''
   \<and> confidence (fst (fuse_results id FusionEngine_init [] ''Stressed'' (Fin (rn 0.80125))
      [] (Fin (rn 0.1)) ''drought'' ''Corn'')) = Fin (rn 0.80125)
   \<and> issues (fst (fuse_results id FusionEngine_init [] ''Stressed'' (Fin (rn 0.80125))
      [] (Fin (rn 0.1)) ''drought'' ''Corn'')) =
       [''Low vegetation index detected (stress/disease likely)'',
        ''Crop stress detected (confidence: 80.12%)'']
   \<and> recommendations (fst (fuse_results id FusionEngine_init [] ''Stressed'' (Fin (rn 0.80125))
      [] (Fin (rn 0.1)) ''drought'' ''Corn'')) =
       [''Inspect for disease, water stress, or nutrient deficiency'',
        ''Check irrigation and nutrient levels'']"
proof -
  let ?dg = "\<lparr>crop_type = ''Corn'', disease_name = ''drought'', overall_health = ''Unknown'',
         confidence = Fin 0, issues = [], recommendations = []\<rparr>"
  have healthy: "''Healthy'' = ''Healthy'' \<or> ''Healthy'' = ''Unknown''" by simp
  have stressed: "''Stressed'' = ''Stressed''" by simp
  note h = health_status_rule [where np_mean = id and st = "''Healthy''"
      and c = "Fin (rn 0.99)" and ds = "[]" and vi = "Fin (rn 0.8)" and dn = "''healthy''"
      and ct = "''Corn''" and self = FusionEngine_init and m = "[]" and dg = ?dg]
  note s = health_status_rule [where np_mean = id and st = "''Stressed''"
      and c = "Fin (rn 0.80125)" and ds = "[]" and vi = "Fin (rn 0.1)" and dn = "''drought''"
      and ct = "''Corn''" and self = FusionEngine_init and m = "[]" and dg = ?dg]
  note h_quiet = h [THEN conjunct2, THEN conjunct2, THEN conjunct1, THEN mp, OF healthy]
  note s_stressed = s [THEN conjunct2, THEN conjunct2, THEN conjunct2, THEN mp, OF stressed]
  have a: "overall_health (fst (fuse_results id FusionEngine_init [] ''Healthy'' (Fin (rn 0.99)) []
      (Fin (rn 0.8)) ''healthy'' ''Corn'')) = ''Healthy''"
    using h by (rule conjunct1)
  have b: "confidence (fst (fuse_results id FusionEngine_init [] ''Healthy'' (Fin (rn 0.99)) []
      (Fin (rn 0.8)) ''healthy'' ''Corn'')) = Fin (rn 0.99)"
    using h [THEN conjunct2] by (rule conjunct1)
  have c: "issues (fst (fuse_results id FusionEngine_init [] ''Healthy'' (Fin (rn 0.99)) []
      (Fin (rn 0.8)) ''healthy'' ''Corn'')) = []"
    using h_quiet [THEN conjunct2, THEN conjunct2, THEN conjunct1] rn_not_below_threshold(3)
    by (simp add: float_lt_Fin)
  have d: "recommendations (fst (fuse_results id FusionEngine_init [] ''Healthy''
      (Fin (rn 0.99)) [] (Fin (rn 0.8)) ''healthy'' ''Corn'')) = [''Continue regular monitoring'']"
    using h_quiet [THEN conjunct2, THEN conjunct2, THEN conjunct2] rn_not_below_threshold(3)
    by (simp add: float_lt_Fin)
  have e: "overall_health (fst (fuse_results id FusionEngine_init [] ''Stressed''
      (Fin (rn 0.80125)) [] (Fin (rn 0.1)) ''drought'' ''Corn'')) = ''Stressed''"
    using s by (rule conjunct1)
  have f: "confidence (fst (fuse_results id FusionEngine_init [] ''Stressed''
      (Fin (rn 0.80125)) [] (Fin (rn 0.1)) ''drought'' ''Corn'')) = Fin (rn 0.80125)"
    using s [THEN conjunct2] by (rule conjunct1)
  have g: "issues (fst (fuse_results id FusionEngine_init [] ''Stressed'' (Fin (rn 0.80125))
      [] (Fin (rn 0.1)) ''drought'' ''Corn'')) =
       [''Low vegetation index detected (stress/disease likely)'',
        ''Crop stress detected (confidence: 80.12%)'']"
    using s_stressed [THEN conjunct2, THEN conjunct2, THEN conjunct1] rn_below_threshold(1)
      format_percent2_0_80125
    by (simp add: float_lt_Fin)
  have i: "recommendations (fst (fuse_results id FusionEngine_init [] ''Stressed''
      (Fin (rn 0.80125)) [] (Fin (rn 0.1)) ''drought'' ''Corn'')) =
       [''Inspect for disease, water stress, or nutrient deficiency'',
        ''Check irrigation and nutrient levels'']"
    using s_stressed [THEN conjunct2, THEN conjunct2, THEN conjunct2] rn_below_threshold(1)
    by (simp add: float_lt_Fin)
  from a b c d e f g i show ?thesis by (intro conjI)
qed

section \<open>What the fusion step depends on\<close>

text \<open>
  C8. The diagnosis depends on the vegetation-index array only through its mean, and not
  at all on the segmentation mask (nor on the engine): two calls with the same health
  record and the same detections, and with index arrays of equal mean, return equal
  diagnoses, whatever the two masks and the two arrays are, and whatever function
  \<^verbatim>\<open>np.mean\<close> is. The arrays \<^verbatim>\<open>[[0.125, 0.375]]\<close> and \<^verbatim>\<open>[[0.25], [0.25]]\<close> are an
  instance: they differ, and their sums and quotients are floats, so that their mean as
  floats is the mean of the reals, 0.25 for both.
\<close>

theorem fuse_depends_on_mean_only:
  "np_mean vi1 = np_mean vi2 \<Longrightarrow>
     fst (fuse_results np_mean self1 m1 st c ds vi1 dn ct)
       = fst (fuse_results np_mean self2 m2 st c ds vi2 dn ct)"
  by (simp only: fuse_unfold)

theorem fuse_depends_on_mean_only_witness:
  "[[0.125, 0.375]] \<noteq> [[0.25], [0.25 :: real]] \<and> [[1]] \<noteq> [[0 :: nat]]
   \<and> fst (fuse_results (\<lambda>a. Fin (sum_list (concat a) / real (length (concat a))))
        FusionEngine_init [[1]] ''Diseased'' (Fin (rn 0.9)) [] [[0.125, 0.375]]
        ''Leaf Blight'' ''Tomato'')
     = fst (fuse_results (\<lambda>a. Fin (sum_list (concat a) / real (length (concat a))))
        FusionEngine_init [[0]] ''Diseased'' (Fin (rn 0.9)) [] [[0.25], [0.25]]
        ''Leaf Blight'' ''Tomato'')"
proof -
  have mean: "(\<lambda>a. Fin (sum_list (concat a) / real (length (concat a)))) [[0.125, 0.375]]
      = (\<lambda>a. Fin (sum_list (concat a) / real (length (concat a)))) [[0.25], [0.25]]"
    by simp
  note same = fuse_depends_on_mean_only
    [where np_mean = "\<lambda>a. Fin (sum_list (concat a) / real (length (concat a)))"
       and ?vi1.0 = "[[0.125, 0.375]]" and ?vi2.0 = "[[0.25], [0.25]]"
       and ?self1.0 = FusionEngine_init and ?self2.0 = FusionEngine_init
       and ?m1.0 = "[[1]]" and ?m2.0 = "[[0]]" and st = "''Diseased''"
       and c = "Fin (rn 0.9)" and ds = "[]" and dn = "''Leaf Blight''" and ct = "''Tomato''",
     OF mean]
  have differ: "[[0.125, 0.375]] \<noteq> [[0.25], [0.25 :: real]]" "[[1]] \<noteq> [[0 :: nat]]"
    by simp_all
  from differ same show ?thesis by (intro conjI)
qed

text \<open>
  C9. \<^verbatim>\<open>fuse_results\<close> is a function of its arguments alone. It hands the engine back as
  it received it (it writes no attribute), its diagnosis is the same for any two engines
  (it reads none), and a second call on the engine left by the first, with the same
  arguments, returns an equal diagnosis and again the same engine: the second diagnosis
  starts from empty lists and holds nothing of the first.
\<close>

theorem fuse_deterministic_no_hidden_state:
  "snd (fuse_results np_mean self m st c ds vi dn ct) = self
   \<and> fst (fuse_results np_mean self m st c ds vi dn ct) = fst (fuse_results np_mean self' m st c ds vi dn ct)
   \<and> (case fuse_results np_mean self m st c ds vi dn ct of
        (d1, self1) \<Rightarrow>
          (case fuse_results np_mean self1 m st c ds vi dn ct of
             (d2, self2) \<Rightarrow> d2 = d1 \<and> self2 = self))"
proof -
  have engine: "\<And>e. snd (fuse_results np_mean e m st c ds vi dn ct) = e"
    by (rule fuse_engine)
  have same: "\<And>e e'. fst (fuse_results np_mean e m st c ds vi dn ct)
      = fst (fuse_results np_mean e' m st c ds vi dn ct)"
    by (simp only: fuse_unfold)
  have twice: "case fuse_results np_mean self m st c ds vi dn ct of
        (d1, self1) \<Rightarrow>
          (case fuse_results np_mean self1 m st c ds vi dn ct of
             (d2, self2) \<Rightarrow> d2 = d1 \<and> self2 = self)"
    using engine same by (simp add: case_prod_unfold)
  from engine same twice show ?thesis by blast
qed


section \<open>The detector's defaults\<close>

lemma categorize_detection_range:
  "categorize_detection l = Some c \<Longrightarrow> c = ''weed'' \<or> c = ''pest''"
  by (simp add: categorize_detection_def Let_def split: if_splits)

lemma detect_box_label:
  "detect_box r b = Inr (Some d) \<Longrightarrow> categorize_detection (d_label d) = Some (d_category d)"
  by (auto simp add: detect_box_def split: prod.splits sum.splits option.splits if_splits)

lemma detect_boxes_labels:
  "detect_boxes r bs acc = Inr ds \<Longrightarrow>
     list_all (\<lambda>d. categorize_detection (d_label d) = Some (d_category d)) acc \<Longrightarrow>
     list_all (\<lambda>d. categorize_detection (d_label d) = Some (d_category d)) ds"
proof (induction bs arbitrary: acc)
  case Nil
  then show ?case by simp
next
  case (Cons b bs)
  show ?case
  proof (cases "detect_box r b")
    case (Inl e)
    with Cons.prems show ?thesis by simp
  next
    case (Inr res)
    show ?thesis
    proof (cases res)
      case None
      with Inr Cons.prems Cons.IH [of acc] show ?thesis by simp
    next
      case (Some d)
      with Inr have "categorize_detection (d_label d) = Some (d_category d)"
        by (simp add: detect_box_label)
      with Some Inr Cons.prems Cons.IH [of "acc @ [d]"] show ?thesis by simp
    qed
  qed
qed

lemma detect_results_labels:
  "detect_results rs acc = Inr ds \<Longrightarrow>
     list_all (\<lambda>d. categorize_detection (d_label d) = Some (d_category d)) acc \<Longrightarrow>
     list_all (\<lambda>d. categorize_detection (d_label d) = Some (d_category d)) ds"
proof (induction rs arbitrary: acc)
  case Nil
  then show ?case by simp
next
  case (Cons r rs)
  show ?case
  proof (cases "detect_boxes r (boxes r) acc")
    case (Inl e)
    with Cons.prems show ?thesis by simp
  next
    case (Inr acc')
    from Inr Cons.prems(2)
    have "list_all (\<lambda>d. categorize_detection (d_label d) = Some (d_category d)) acc'"
      by (rule detect_boxes_labels)
    with Inr Cons.prems(1) Cons.IH [of acc'] show ?thesis by simp
  qed
qed

lemma detect_labels:
  "list_all (\<lambda>d. categorize_detection (d_label d) = Some (d_category d))
     (fst (detect self img))"
proof (cases "available self")
  case False
  then show ?thesis by (simp add: detect_def)
next
  case True
  show ?thesis
  proof (cases "model self img")
    case (Inl e)
    with True show ?thesis by (simp add: detect_def)
  next
    case (Inr rs)
    show ?thesis
    proof (cases "detect_results rs []")
      case (Inl e)
      with True \<open>model self img = Inr rs\<close> show ?thesis by (simp add: detect_def)
    next
      case inner: (Inr ds)
      then have "list_all (\<lambda>d. categorize_detection (d_label d) = Some (d_category d)) ds"
        by (rule detect_results_labels) simp
      with True Inr inner show ?thesis by (simp add: detect_def)
    qed
  qed
qed

lemma detect_outcome:
  "fst (detect self img) = [] \<or> snd (detect self img) = ''Success''"
  by (simp add: detect_def split: sum.splits)


text \<open>
  C10. \<^verbatim>\<open>detect\<close> always returns a pair of a detection list and a status message. An
  unavailable detector gives the empty list with \<^verbatim>\<open>YOLOv8 not available\<close>; an exception of
  the model call, or of the loops over its results, gives the empty list with
  \<^verbatim>\<open>Detection failed:\<close> and the exception's message; otherwise the list built by the loops
  comes back with \<^verbatim>\<open>Success\<close>. So the list is empty whenever the status is not
  \<^verbatim>\<open>Success\<close>. Every detection returned has the category that \<^verbatim>\<open>_categorize_detection\<close>
  gives its label, which is \<^verbatim>\<open>weed\<close> or \<^verbatim>\<open>pest\<close>: a label whose lowercased text contains
  no weed keyword and no pest keyword is categorized \<^verbatim>\<open>None\<close> and is the label of no
  returned detection, and a label containing a weed keyword is categorized \<^verbatim>\<open>weed\<close>
  whether or not it contains a pest keyword too.
\<close>

theorem detect_degrades_to_defaults:
  "(\<not> available self \<longrightarrow> detect self img = ([], ''YOLOv8 not available''))
   \<and> (available self \<and> model self img = Inl e \<longrightarrow>
        detect self img = ([], ''Detection failed: '' @ e))
   \<and> (available self \<and> model self img = Inr rs \<and> detect_results rs [] = Inl e \<longrightarrow>
        detect self img = ([], ''Detection failed: '' @ e))
   \<and> (available self \<and> model self img = Inr rs \<and> detect_results rs [] = Inr ds \<longrightarrow>
        detect self img = (ds, ''Success''))
   \<and> (fst (detect self img) = [] \<or> snd (detect self img) = ''Success'')
   \<and> list_all (\<lambda>d. d_category d = ''weed'' \<or> d_category d = ''pest'') (fst (detect self img))
   \<and> list_all (\<lambda>d. categorize_detection (d_label d) = Some (d_category d))
        (fst (detect self img))
   \<and> (\<not> list_ex (\<lambda>kw. str_in kw (lower label)) weed_keywords
        \<and> \<not> list_ex (\<lambda>kw. str_in kw (lower label)) pest_keywords \<longrightarrow>
        categorize_detection label = None
        \<and> \<not> list_ex (\<lambda>d. d_label d = label) (fst (detect self img)))
   \<and> (list_ex (\<lambda>kw. str_in kw (lower label)) weed_keywords \<longrightarrow>
        categorize_detection label = Some ''weed'')"
proof -
  have unavailable: "\<not> available self \<longrightarrow> detect self img = ([], ''YOLOv8 not available'')"
    by (simp add: detect_def)
  have raised: "available self \<and> model self img = Inl e \<longrightarrow>
        detect self img = ([], ''Detection failed: '' @ e)"
    by (simp add: detect_def)
  have raised_inside: "available self \<and> model self img = Inr rs
        \<and> detect_results rs [] = Inl e \<longrightarrow>
        detect self img = ([], ''Detection failed: '' @ e)"
    by (simp add: detect_def)
  have success: "available self \<and> model self img = Inr rs
        \<and> detect_results rs [] = Inr ds \<longrightarrow> detect self img = (ds, ''Success'')"
    by (simp add: detect_def)
  note outcome = detect_outcome [of self img]
  note labels = detect_labels [of self img]
  have categories: "list_all (\<lambda>d. d_category d = ''weed'' \<or> d_category d = ''pest'')
      (fst (detect self img))"
    using labels by (auto simp add: list_all_iff dest: categorize_detection_range)
  have dropped: "\<not> list_ex (\<lambda>kw. str_in kw (lower label)) weed_keywords
        \<and> \<not> list_ex (\<lambda>kw. str_in kw (lower label)) pest_keywords \<longrightarrow>
        categorize_detection label = None
        \<and> \<not> list_ex (\<lambda>d. d_label d = label) (fst (detect self img))"
    using labels by (auto simp add: categorize_detection_def list_all_iff list_ex_iff)
  have weed_first: "list_ex (\<lambda>kw. str_in kw (lower label)) weed_keywords \<longrightarrow>
        categorize_detection label = Some ''weed''"
    by (simp add: categorize_detection_def)
  from unavailable raised raised_inside success outcome categories labels dropped weed_first
  show ?thesis by (intro conjI)
qed

theorem detect_degrades_to_defaults_witness:
  "\<not> available \<lparr>available = False, model = (\<lambda>i :: unit. Inr [])\<rparr>
   \<and> detect \<lparr>available = False, model = (\<lambda>i :: unit. Inr [])\<rparr> ()
       = ([], ''YOLOv8 not available'')
   \<and> model \<lparr>available = True, model = (\<lambda>i :: unit. Inl ''out of memory'')\<rparr> ()
       = Inl ''out of memory''
   \<and> detect \<lparr>available = True, model = (\<lambda>i :: unit. Inl ''out of memory'')\<rparr> ()
       = ([], ''Detection failed: out of memory'')
   \<and> detect \<lparr>available = True, model = (\<lambda>i :: unit. Inr
         [\<lparr>boxes =
            [\<lparr>xyxy = (Fin 10.7, Fin 20.2, Fin 50.9, Fin 60), conf = Fin 0.8, cls = Fin 58\<rparr>,
             \<lparr>xyxy = (Fin 1, Fin 2, Fin 3, Fin 4), conf = Fin 0.7, cls = Fin 2\<rparr>,
             \<lparr>xyxy = (Fin 5, Fin 6, Fin 7, Fin 8), conf = Fin 0.6, cls = Fin 14\<rparr>],
           names = [2 \<mapsto> ''car'', 14 \<mapsto> ''bird'', 58 \<mapsto> ''potted plant'']\<rparr>])\<rparr> ()
       = ([\<lparr>d_bbox = (10, 20, 50, 60), d_confidence = Fin 0.8, d_label = ''potted plant'',
            d_category = ''weed''\<rparr>,
           \<lparr>d_bbox = (5, 6, 7, 8), d_confidence = Fin 0.6, d_label = ''bird'',
            d_category = ''pest''\<rparr>], ''Success'')
   \<and> detect \<lparr>available = True, model = (\<lambda>i :: unit. Inr
         [\<lparr>boxes =
            [\<lparr>xyxy = (Fin 10.7, Fin 20.2, Fin 50.9, Fin 60), conf = Fin 0.8, cls = Fin 58\<rparr>,
             \<lparr>xyxy = (Fin 1, Fin 2, Fin 3, Fin 4), conf = Fin 0.7, cls = NaN\<rparr>],
           names = [2 \<mapsto> ''car'', 14 \<mapsto> ''bird'', 58 \<mapsto> ''potted plant'']\<rparr>])\<rparr> ()
       = ([], ''Detection failed: cannot convert float NaN to integer'')
   \<and> \<not> list_ex (\<lambda>kw. str_in kw (lower ''car'')) weed_keywords
   \<and> \<not> list_ex (\<lambda>kw. str_in kw (lower ''car'')) pest_keywords
   \<and> categorize_detection ''car'' = None
   \<and> list_ex (\<lambda>kw. str_in kw (lower ''Bird on a Plant'')) weed_keywords
   \<and> list_ex (\<lambda>kw. str_in kw (lower ''Bird on a Plant'')) pest_keywords
   \<and> categorize_detection ''Bird on a Plant'' = Some ''weed''"
proof -
  let ?names = "[2 \<mapsto> ''car'', 14 \<mapsto> ''bird'', 58 \<mapsto> ''potted plant'']
    :: int \<rightharpoonup> string"
  let ?ok = "[\<lparr>boxes =
      [\<lparr>xyxy = (Fin 10.7, Fin 20.2, Fin 50.9, Fin 60), conf = Fin 0.8, cls = Fin 58\<rparr>,
       \<lparr>xyxy = (Fin 1, Fin 2, Fin 3, Fin 4), conf = Fin 0.7, cls = Fin 2\<rparr>,
       \<lparr>xyxy = (Fin 5, Fin 6, Fin 7, Fin 8), conf = Fin 0.6, cls = Fin 14\<rparr>],
     names = ?names\<rparr>]"
  let ?bad = "[\<lparr>boxes =
      [\<lparr>xyxy = (Fin 10.7, Fin 20.2, Fin 50.9, Fin 60), conf = Fin 0.8, cls = Fin 58\<rparr>,
       \<lparr>xyxy = (Fin 1, Fin 2, Fin 3, Fin 4), conf = Fin 0.7, cls = NaN\<rparr>],
     names = ?names\<rparr>]"
  let ?ds = "[\<lparr>d_bbox = (10, 20, 50, 60), d_confidence = Fin 0.8, d_label = ''potted plant'',
        d_category = ''weed''\<rparr>,
       \<lparr>d_bbox = (5, 6, 7, 8), d_confidence = Fin 0.6, d_label = ''bird'',
        d_category = ''pest''\<rparr>]"
  let ?U = "\<lparr>available = False, model = (\<lambda>i :: unit. Inr [])\<rparr>"
  let ?F = "\<lparr>available = True, model = (\<lambda>i :: unit. Inl ''out of memory'')\<rparr>"
  let ?G = "\<lparr>available = True, model = (\<lambda>i :: unit. Inr ?ok)\<rparr>"
  let ?B = "\<lparr>available = True, model = (\<lambda>i :: unit. Inr ?bad)\<rparr>"
  have off: "\<not> available ?U" by simp
  have fails: "available ?F \<and> model ?F () = Inl ''out of memory''" by simp
  have cat_plant: "categorize_detection ''potted plant'' = Some ''weed''"
    and cat_bird: "categorize_detection ''bird'' = Some ''pest''"
    by (simp_all add: categorize_detection_def lower_def lower_char_def weed_keywords_def
        pest_keywords_def)
  have car_weed: "\<not> list_ex (\<lambda>kw. str_in kw (lower ''car'')) weed_keywords"
    and car_pest: "\<not> list_ex (\<lambda>kw. str_in kw (lower ''car'')) pest_keywords"
    by (simp_all add: lower_def lower_char_def weed_keywords_def pest_keywords_def)
  have lowered: "lower ''Bird on a Plant'' = ''bird on a plant''"
    by code_simp
  have both_weed: "list_ex (\<lambda>kw. str_in kw (lower ''Bird on a Plant'')) weed_keywords"
    and both_pest: "list_ex (\<lambda>kw. str_in kw (lower ''Bird on a Plant'')) pest_keywords"
    unfolding lowered by (simp_all add: weed_keywords_def pest_keywords_def)
  note car = detect_degrades_to_defaults [where label = "''car''" and self = ?G and img = "()",
      THEN conjunct2, THEN conjunct2, THEN conjunct2, THEN conjunct2, THEN conjunct2,
      THEN conjunct2, THEN conjunct2, THEN conjunct1, THEN mp, OF conjI, OF car_weed car_pest,
      THEN conjunct1]
  note both = detect_degrades_to_defaults [where label = "''Bird on a Plant''" and self = ?G
      and img = "()",
      THEN conjunct2, THEN conjunct2, THEN conjunct2, THEN conjunct2, THEN conjunct2,
      THEN conjunct2, THEN conjunct2, THEN conjunct2, THEN mp, OF both_weed]
  have run_ok: "available ?G \<and> model ?G () = Inr ?ok \<and> detect_results ?ok [] = Inr ?ds"
    by (simp add: detect_box_def py_int_def car cat_plant cat_bird)
  have run_bad: "available ?B \<and> model ?B () = Inr ?bad
      \<and> detect_results ?bad [] = Inl ''cannot convert float NaN to integer''"
    by (simp add: detect_box_def py_int_def cat_plant)
  note w1 = detect_degrades_to_defaults [where self = ?U and img = "()",
      THEN conjunct1, THEN mp, OF off]
  note w2 = detect_degrades_to_defaults [where self = ?F and img = "()"
      and e = "''out of memory''", THEN conjunct2, THEN conjunct1, THEN mp, OF fails]
  note w3 = detect_degrades_to_defaults [where self = ?B and img = "()" and rs = ?bad
      and e = "''cannot convert float NaN to integer''",
      THEN conjunct2, THEN conjunct2, THEN conjunct1, THEN mp, OF run_bad]
  note w4 = detect_degrades_to_defaults [where self = ?G and img = "()" and rs = ?ok
      and ds = ?ds,
      THEN conjunct2, THEN conjunct2, THEN conjunct2, THEN conjunct1, THEN mp, OF run_ok]
  from off w1 fails w2 w4 w3 car_weed car_pest car both_weed both_pest both
  show ?thesis by simp
qed

end
